theory Spec2Isabelle
  imports Complex_Main "HOL-Library.Word" "HOL-Library.Sublist"
begin

section \<open>Values, errors and the state store\<close>

text \<open>
  The keyword arguments that the tasks hand to the state reporter are Python strings and
  Python integers (\<open>status="processing"\<close>, \<open>progress=5\<close>); no other type is passed
  anywhere in the repository.
\<close>

datatype pyval = PStr string | PInt int

text \<open>Python's \<open>str(n)\<close> for an integer: decimal digits, with a leading minus sign.\<close>

function str_nat :: "nat \<Rightarrow> string" where
  "str_nat n =
     (if n < 10 then [''0123456789'' ! n]
      else str_nat (n div 10) @ [''0123456789'' ! (n mod 10)])"
  by pat_completeness auto
termination
  by (relation "measure (\<lambda>n. n)") auto

declare str_nat.simps [simp del]

definition str_int :: "int \<Rightarrow> string" where
  "str_int i = (if i < 0 then CHR ''-'' # str_nat (nat (- i)) else str_nat (nat i))"

fun py_str :: "pyval \<Rightarrow> string" where
  "py_str (PStr s) = s"
| "py_str (PInt i) = str_int i"

text \<open>
  What \<open>json.dumps\<close> makes of a value: the document as a tree. A Python \<open>str\<close> becomes
  a JSON string, a Python \<open>int\<close> a JSON number, a \<open>dict\<close> an object with its keys in
  insertion order.
\<close>

datatype json = JString string | JNumber int | JObject "(string \<times> json) list"

fun json_of :: "pyval \<Rightarrow> json" where
  "json_of (PStr s) = JString s"
| "json_of (PInt i) = JNumber i"

definition json_dumps :: "(string \<times> pyval) list \<Rightarrow> json" where
  "json_dumps flds = JObject (map (\<lambda>(k, v). (k, json_of v)) flds)"

text \<open>
  The exceptions the tasks raise themselves, the one exception class they catch by name
  (\<open>subprocess.CalledProcessError\<close>, with the command and its exit status), and
  \<open>LibraryError\<close> for any other exception raised inside a library call (\<open>requests\<close>,
  \<open>pikepdf\<close>, \<open>fitz\<close>, \<open>cloudinary\<close>, the operating system), carrying the text
  of \<open>str(e)\<close>.
\<close>

datatype error =
    ValueError string
  | FileNotFoundError string
  | RuntimeError string
  | KeyError string
  | CalledProcessError "string list" int
  | LibraryError string

type_synonym byte = "8 word"

text \<open>
  The Redis side: one hash per key (\<open>hset\<close> merges the given fields into it) and the
  messages published so far, oldest first, each with its channel.
\<close>

record store =
  hashes :: "string \<Rightarrow> (string \<rightharpoonup> pyval)"
  published :: "(string \<times> json) list"

definition hset :: "string \<Rightarrow> (string \<times> pyval) list \<Rightarrow> store \<Rightarrow> store" where
  "hset key mapping s =
     s\<lparr>hashes := (hashes s)(key := fold (\<lambda>(k, v) h. h(k \<mapsto> v)) mapping (hashes s key))\<rparr>"

definition publish :: "string \<Rightarrow> json \<Rightarrow> store \<Rightarrow> store" where
  "publish channel message s = s\<lparr>published := published s @ [(channel, message)]\<rparr>"

text \<open>
  \<open>update_state\<close> of \<open>worker/utils.py\<close>, and \<open>_update\<close> of \<open>worker/pdf/compress.py\<close>, which
  has the same body: the hash receives \<open>str(v)\<close> for every field, the channel
  \<open>progress:<task_id>\<close> receives \<open>json.dumps(fields)\<close> of the fields as they were passed.
\<close>

definition update_state :: "string \<Rightarrow> (string \<times> pyval) list \<Rightarrow> store \<Rightarrow> store" where
  "update_state task_id flds s =
     publish (''progress:'' @ task_id) (json_dumps flds)
       (hset task_id (map (\<lambda>(k, v). (k, PStr (py_str v))) flds) s)"

section \<open>Quality profiles\<close>

record cfg =
  dpi :: int
  jpeg_q :: int
  jbig2 :: string
  gs :: string

definition LEVELS :: "string \<rightharpoonup> cfg" where
  "LEVELS =
     [''low'' \<mapsto> \<lparr>dpi = 300, jpeg_q = 85, jbig2 = ''--jbig2-lossless'', gs = ''/printer''\<rparr>,
      ''medium'' \<mapsto> \<lparr>dpi = 150, jpeg_q = 65, jbig2 = ''--jbig2-lossless'', gs = ''/ebook''\<rparr>,
      ''high'' \<mapsto> \<lparr>dpi = 96, jpeg_q = 45, jbig2 = ''--jbig2-lossy'', gs = ''/screen''\<rparr>]"

text \<open>
  The first three lines of the task body: a name that is not a key of \<open>LEVELS\<close> is
  replaced by \<open>"medium"\<close>, then the table is indexed (\<open>KeyError\<close> on a missing key).
\<close>

definition select_cfg :: "string \<Rightarrow> error + cfg" where
  "select_cfg compression_level =
     (let level = (if compression_level \<notin> dom LEVELS then ''medium'' else compression_level)
      in case LEVELS level of None \<Rightarrow> Inl (KeyError level) | Some c \<Rightarrow> Inr c)"

section \<open>Files and artifact validation\<close>

type_synonym fs = "string \<rightharpoonup> byte list"

text \<open>
  \<open>_validate_file\<close>: \<open>os.path.exists\<close> is a lookup in the file system,
  \<open>os.path.getsize\<close> the length of the content.
\<close>

definition validate_file :: "fs \<Rightarrow> string \<Rightarrow> string \<Rightarrow> error + nat" where
  "validate_file files path step_name =
     (case files path of
        None \<Rightarrow> Inl (FileNotFoundError (''['' @ step_name @ ''] File not found: '' @ path))
      | Some content \<Rightarrow>
          (let size = length content
           in if size = 0
              then Inl (RuntimeError (''['' @ step_name @ ''] Generated file is 0 bytes: '' @ path))
              else Inr size))"

section \<open>The scanned-document classifier\<close>

text \<open>
  What \<open>_is_scanned\<close> reads of a page: the names of its images (\<open>page.images\<close>) and the
  keys of its resource dictionary (\<open>page.resources\<close>).
\<close>

record page =
  images :: "string list"
  resources :: "string list"

definition scanned_like :: "page \<Rightarrow> bool" where
  "scanned_like p =
     (let has_images = length (images p) > 0;
          has_fonts = ''/Font'' \<in> set (resources p)
      in has_images \<and> \<not> has_fonts)"

fun count_scanned :: "page list \<Rightarrow> nat \<Rightarrow> nat" where
  "count_scanned [] scanned_cnt = scanned_cnt"
| "count_scanned (p # ps) scanned_cnt =
     count_scanned ps (if scanned_like p then scanned_cnt + 1 else scanned_cnt)"

text \<open>
  The quotient \<open>scanned_cnt / len(pages)\<close> is a Python float. With at most three sampled
  pages it is one of 0, 1/3, 1/2, 2/3 and 1, and the double nearest to each of them lies
  on the same side of the double \<open>0.8\<close> as the exact fraction lies of 4/5, so the
  comparison is the exact one.
\<close>

definition is_scanned :: "page list \<Rightarrow> nat \<Rightarrow> bool" where
  "is_scanned pdf sample =
     (let pages = take sample pdf
      in if pages = [] then False
         else (rat_of_nat (count_scanned pages 0) / rat_of_nat (length pages) \<ge> 8 / 10))"

text \<open>The classifier in the specification's words, for comparison.\<close>

definition sampled_pages :: "page list \<Rightarrow> page list" where
  "sampled_pages pdf = (if length pdf < 3 then pdf else take 3 pdf)"

definition spec_fraction :: "page list \<Rightarrow> rat" where
  "spec_fraction pdf =
     rat_of_nat (length (filter (\<lambda>p. images p \<noteq> [] \<and> ''/Font'' \<notin> set (resources p))
                                (sampled_pages pdf)))
       / rat_of_nat (length (sampled_pages pdf))"

section \<open>The host: libraries, binaries and the network\<close>

text \<open>
  Everything the pipeline calls outside the repository, as functions of what it is
  given. A library call that raises returns \<open>Inl\<close> with the text of the exception.
  A subprocess yields its exit status and, when it wrote its output file, the content.
  Three renderings of Python values are taken as they come: the text of a
  \<open>CalledProcessError\<close>, and the float formats \<open>{x / 1024:.1f}\<close> and \<open>{ratio:.1f}%\<close>.
\<close>

record proc =
  returncode :: int
  written :: "byte list option"

record host =
  windows :: bool
  GS_EXEC :: string
  OCR_EXEC :: "string option"
  requests_get :: "string \<Rightarrow> string + byte list"
  mkdtemp :: "string + string"
  write_file :: "string \<Rightarrow> byte list \<Rightarrow> string option"
  pikepdf_open :: "fs \<Rightarrow> string \<Rightarrow> string + page list"
  pikepdf_save :: "page list \<Rightarrow> string + byte list"
  subprocess_run :: "string list \<Rightarrow> fs \<Rightarrow> string + proc"
  cu_upload :: "fs \<Rightarrow> string \<Rightarrow> string + (string \<rightharpoonup> string)"
  fitz_open :: "byte list \<Rightarrow> string + page list"
  fitz_save :: "page list \<Rightarrow> string + byte list"
  uploader_upload :: "byte list \<Rightarrow> string \<Rightarrow> string + (string \<rightharpoonup> string)"
  cpe_str :: "string list \<Rightarrow> int \<Rightarrow> string"
  fmt_kb :: "nat \<Rightarrow> string"
  fmt_saving :: "nat \<Rightarrow> nat \<Rightarrow> string"

text \<open>
  What a run can change: the state store, the files and directories of the worker's
  disk, and four logs, oldest first: the directories and files it has created (removing
  them later does not erase the entry), the commands it has run, the documents it has
  handed to \<open>fitz\<close> for saving, and what it has uploaded (a file by its path, or
  bytes with their public id).
\<close>

datatype uploaded = FromPath string | FromBytes "byte list" string

record world =
  redis :: store
  files :: fs
  dirs :: "string set"
  created :: "string list"
  procs :: "string list list"
  saves :: "page list list"
  uploads :: "uploaded list"

type_synonym 'a io = "world \<Rightarrow> (error + 'a) \<times> world"

definition return_io :: "'a \<Rightarrow> 'a io" where
  "return_io x w = (Inr x, w)"

definition raise_io :: "error \<Rightarrow> 'a io" where
  "raise_io e w = (Inl e, w)"

definition bind_io :: "'a io \<Rightarrow> ('a \<Rightarrow> 'b io) \<Rightarrow> 'b io" where
  "bind_io m f w = (case m w of (Inl e, w') \<Rightarrow> (Inl e, w') | (Inr x, w') \<Rightarrow> f x w')"

text \<open>\<open>str(e)\<close> of a caught exception; a \<open>KeyError\<close> prints the key quoted.\<close>

fun str_error :: "host \<Rightarrow> error \<Rightarrow> string" where
  "str_error h (ValueError m) = m"
| "str_error h (FileNotFoundError m) = m"
| "str_error h (RuntimeError m) = m"
| "str_error h (KeyError k) = [CHR 0x27] @ k @ [CHR 0x27]"
| "str_error h (CalledProcessError cmd rc) = cpe_str h cmd rc"
| "str_error h (LibraryError m) = m"

subsection \<open>Paths\<close>

text \<open>
  \<open>os.path.join\<close> of a directory and a plain file name: the separator is added unless
  the directory is empty or already ends in one. \<open>_safe_path\<close> turns backslashes into
  forward slashes on Windows and is the identity elsewhere.
\<close>

definition seps :: "bool \<Rightarrow> char list" where
  "seps win = (if win then [CHR 0x5C, CHR ''/''] else [CHR ''/''])"

definition path_join :: "bool \<Rightarrow> string \<Rightarrow> string \<Rightarrow> string" where
  "path_join win a b =
     (if a = [] \<or> last a \<in> set (seps win) then a @ b else a @ hd (seps win) # b)"

definition safe_path :: "host \<Rightarrow> string \<Rightarrow> string" where
  "safe_path h path =
     (if windows h then map (\<lambda>c. if c = CHR 0x5C then CHR ''/'' else c) path else path)"

text \<open>A path lies inside a directory when it continues the directory's name and a separator.\<close>

definition inside :: "bool \<Rightarrow> string \<Rightarrow> string \<Rightarrow> bool" where
  "inside win d p = prefix (path_join win d []) p"

text \<open>
  Leaving \<open>with tempfile.TemporaryDirectory() as tmp\<close>: the directory and everything in
  it is removed, whether the block returned or raised.
\<close>

definition rmtree :: "bool \<Rightarrow> string \<Rightarrow> world \<Rightarrow> world" where
  "rmtree win d w =
     w\<lparr>files := (\<lambda>p. if inside win d p then None else files w p),
       dirs := {x \<in> dirs w. x \<noteq> d \<and> \<not> inside win d x}\<rparr>"

definition temporary_directory :: "host \<Rightarrow> (string \<Rightarrow> 'a io) \<Rightarrow> 'a io" where
  "temporary_directory h body w =
     (case mkdtemp h of
        Inl m \<Rightarrow> (Inl (LibraryError m), w)
      | Inr tmp \<Rightarrow>
          (case body tmp (w\<lparr>dirs := insert tmp (dirs w), created := created w @ [tmp]\<rparr>) of
             (r, w') \<Rightarrow> (r, rmtree (windows h) tmp w')))"

subsection \<open>The steps of the pipeline\<close>

text \<open>
  \<open>_update\<close> as a step, on a state store that answers every call. The same step on a
  store that can fail is \<open>update_on\<close> below; the two agree on the client \<open>reliable\<close>.
\<close>

definition update :: "string \<Rightarrow> (string \<times> pyval) list \<Rightarrow> unit io" where
  "update task_id flds w = (Inr (), w\<lparr>redis := update_state task_id flds (redis w)\<rparr>)"

definition download :: "host \<Rightarrow> string \<Rightarrow> (byte list) io" where
  "download h file_url w =
     (case requests_get h file_url of
        Inl m \<Rightarrow> (Inl (LibraryError m), w)
      | Inr pdf_bytes \<Rightarrow> (Inr pdf_bytes, w))"

definition write_source :: "host \<Rightarrow> string \<Rightarrow> byte list \<Rightarrow> unit io" where
  "write_source h path content w =
     (case write_file h path content of
        Some m \<Rightarrow> (Inl (LibraryError m), w)
      | None \<Rightarrow>
          (Inr (), w\<lparr>files := (files w)(path \<mapsto> content), created := created w @ [path]\<rparr>))"

definition validate :: "string \<Rightarrow> string \<Rightarrow> nat io" where
  "validate path step_name w = (validate_file (files w) path step_name, w)"

text \<open>
  \<open>with pikepdf.open(src) as pdf\<close>: classify, then save to \<open>p1\<close>.
\<close>

definition preprocess :: "host \<Rightarrow> string \<Rightarrow> string \<Rightarrow> bool io" where
  "preprocess h src p1 w =
     (case pikepdf_open h (files w) src of
        Inl m \<Rightarrow> (Inl (LibraryError m), w)
      | Inr pdf \<Rightarrow>
          (let scanned = is_scanned pdf 3
           in case pikepdf_save h pdf of
                Inl m \<Rightarrow> (Inl (LibraryError m), w)
              | Inr saved \<Rightarrow>
                  (Inr scanned,
                   w\<lparr>files := (files w)(p1 \<mapsto> saved), created := created w @ [p1]\<rparr>)))"

text \<open>
  \<open>subprocess.run(cmd, check=True)\<close>, for a command told to write \<open>target\<close>: a
  non-zero exit status raises \<open>CalledProcessError\<close>.
\<close>

definition run_checked :: "host \<Rightarrow> string list \<Rightarrow> string \<Rightarrow> unit io" where
  "run_checked h cmd target w =
     (case subprocess_run h cmd (files w) of
        Inl m \<Rightarrow> (Inl (LibraryError m), w)
      | Inr r \<Rightarrow>
          (let w' = w\<lparr>files := (case written r of None \<Rightarrow> files w
                                 | Some content \<Rightarrow> (files w)(target \<mapsto> content)),
                      created := (case written r of None \<Rightarrow> created w
                                   | Some content \<Rightarrow> created w @ [target]),
                      procs := procs w @ [cmd]\<rparr>
           in if returncode r \<noteq> 0 then (Inl (CalledProcessError cmd (returncode r)), w')
              else (Inr (), w')))"

definition upload :: "host \<Rightarrow> string \<Rightarrow> (string \<rightharpoonup> string) io" where
  "upload h path w =
     (case cu_upload h (files w) path of
        Inl m \<Rightarrow> (Inl (LibraryError m), w)
      | Inr upload_res \<Rightarrow> (Inr upload_res, w\<lparr>uploads := uploads w @ [FromPath path]\<rparr>))"

definition subscript :: "(string \<rightharpoonup> 'a) \<Rightarrow> string \<Rightarrow> 'a io" where
  "subscript d key w = (case d key of None \<Rightarrow> (Inl (KeyError key), w) | Some v \<Rightarrow> (Inr v, w))"

text \<open>Python's truth value of \<open>OCR_EXEC\<close>: \<open>None\<close> and the empty string are false.\<close>

definition truthy :: "string option \<Rightarrow> bool" where
  "truthy x = (case x of None \<Rightarrow> False | Some s \<Rightarrow> s \<noteq> [])"

definition ocr_cmd :: "host \<Rightarrow> cfg \<Rightarrow> string \<Rightarrow> string \<Rightarrow> string list" where
  "ocr_cmd h c p1 p2 =
     [the (OCR_EXEC h), ''--skip-text'', ''--optimize'', ''2'',
      ''--jpeg-quality'', str_int (jpeg_q c),
      ''--image-dpi'', str_int (dpi c),
      jbig2 c,
      ''--output-type'', ''pdf'',
      p1, p2]"

definition gs_cmd :: "host \<Rightarrow> cfg \<Rightarrow> string \<Rightarrow> string \<Rightarrow> string list" where
  "gs_cmd h c gs_input gs_output =
     [safe_path h (GS_EXEC h),
      ''-sDEVICE=pdfwrite'',
      ''-dCompatibilityLevel=1.4'',
      ''-dPDFSETTINGS='' @ gs c,
      ''-dNOPAUSE'', ''-dQUIET'', ''-dBATCH'', ''-dSAFER'',
      ''-sOutputFile='' @ gs_output,
      gs_input]"

text \<open>Step 3, the conditional OCR: its result is the path handed to Ghostscript.\<close>

definition ocr_stage :: "host \<Rightarrow> string \<Rightarrow> cfg \<Rightarrow> bool \<Rightarrow> string \<Rightarrow> string \<Rightarrow> string io" where
  "ocr_stage h task_id c scanned p1 p2 =
     (if scanned \<and> truthy (OCR_EXEC h) then
        bind_io (update task_id [(''progress'', PInt 45)]) (\<lambda>_.
        bind_io (run_checked h (ocr_cmd h c p1 p2) p2) (\<lambda>_.
        bind_io (validate p2 ''OCR'') (\<lambda>_.
        return_io p2)))
      else return_io p1)"

text \<open>The body of the \<open>with\<close> block: it yields the URL and the size of the output.\<close>

definition staged :: "host \<Rightarrow> string \<Rightarrow> cfg \<Rightarrow> byte list \<Rightarrow> string \<Rightarrow> (string \<times> nat) io" where
  "staged h task_id c pdf_bytes tmp =
     (let src = path_join (windows h) tmp ''src.pdf'';
          p1 = path_join (windows h) tmp ''p1.pdf'';
          p2 = path_join (windows h) tmp ''p2.pdf'';
          out = path_join (windows h) tmp ''out.pdf''
      in
        bind_io (write_source h src pdf_bytes) (\<lambda>_.
        bind_io (validate src ''Download'') (\<lambda>_.
        bind_io (update task_id [(''progress'', PInt 30)]) (\<lambda>_.
        bind_io (preprocess h src p1) (\<lambda>scanned.
        bind_io (validate p1 ''Pikepdf'') (\<lambda>_.
        bind_io (ocr_stage h task_id c scanned p1 p2) (\<lambda>p2_in.
        bind_io (update task_id [(''progress'', PInt 70)]) (\<lambda>_.
        bind_io (run_checked h (gs_cmd h c (safe_path h p2_in) (safe_path h out)) out) (\<lambda>_.
        bind_io (validate out ''Ghostscript'') (\<lambda>final_size.
        bind_io (update task_id [(''progress'', PInt 85)]) (\<lambda>_.
        bind_io (upload h out) (\<lambda>upload_res.
        bind_io (subscript upload_res ''secure_url'') (\<lambda>cloud_url.
        return_io (cloud_url, final_size))))))))))))))"

text \<open>The \<open>try\<close> block of \<open>compress_pdf_task\<close>.\<close>

definition compress_try :: "host \<Rightarrow> string \<Rightarrow> string \<Rightarrow> string \<Rightarrow> string io" where
  "compress_try h task_id file_url compression_level =
     bind_io (\<lambda>w. (select_cfg compression_level, w)) (\<lambda>c.
     bind_io (update task_id [(''status'', PStr ''processing''), (''progress'', PInt 5)]) (\<lambda>_.
     bind_io (download h file_url) (\<lambda>pdf_bytes.
     (let orig_size = length pdf_bytes in
     bind_io (if orig_size = 0 then raise_io (ValueError ''Source file download is 0 bytes.'')
              else return_io ()) (\<lambda>_.
     bind_io (update task_id [(''progress'', PInt 20)]) (\<lambda>_.
     bind_io (temporary_directory h (staged h task_id c pdf_bytes)) (\<lambda>(cloud_url, final_size).
     bind_io (update task_id
                [(''status'', PStr ''completed''),
                 (''progress'', PInt 100),
                 (''result_url'', PStr cloud_url),
                 (''original_kb'', PStr (fmt_kb h orig_size)),
                 (''compressed_kb'', PStr (fmt_kb h final_size)),
                 (''saving'', PStr (fmt_saving h final_size orig_size))]) (\<lambda>_.
     return_io cloud_url))))))))"

text \<open>
  The task: the two \<open>except\<close> clauses record the failure and raise the exception again.
\<close>

definition compress_pdf_task :: "host \<Rightarrow> string \<Rightarrow> string \<Rightarrow> string \<Rightarrow> string io" where
  "compress_pdf_task h task_id file_url compression_level w =
     (case compress_try h task_id file_url compression_level w of
        (Inr cloud_url, w') \<Rightarrow> (Inr cloud_url, w')
      | (Inl (CalledProcessError cmd rc), w') \<Rightarrow>
          (Inl (CalledProcessError cmd rc),
           snd (update task_id
                  [(''status'', PStr ''failed''),
                   (''error'', PStr (''Process Error: '' @ str_error h (CalledProcessError cmd rc)))]
                  w'))
      | (Inl e, w') \<Rightarrow>
          (Inl e,
           snd (update task_id
                  [(''status'', PStr ''failed''),
                   (''error'', PStr (''Worker Error: '' @ str_error h e))]
                  w')))"

section \<open>Page extraction\<close>

text \<open>
  \<open>insert_pdf(src, from_page, to_page)\<close> appends the pages \<open>from_page\<close> to \<open>to_page\<close> of
  \<open>src\<close> (0-based, both included) to the document; the task calls it on a new, empty
  document and only with \<open>0 \<le> from_page \<le> to_page < len(src)\<close>.
\<close>

definition insert_pdf :: "page list \<Rightarrow> page list \<Rightarrow> int \<Rightarrow> int \<Rightarrow> page list" where
  "insert_pdf doc src from_page to_page =
     doc @ take (nat (to_page - from_page + 1)) (drop (nat from_page) src)"

definition open_stream :: "host \<Rightarrow> byte list \<Rightarrow> (page list) io" where
  "open_stream h content w =
     (case fitz_open h content of
        Inl m \<Rightarrow> (Inl (LibraryError m), w)
      | Inr pdf \<Rightarrow> (Inr pdf, w))"

definition save_buffer :: "host \<Rightarrow> page list \<Rightarrow> (byte list) io" where
  "save_buffer h pdf w =
     (case fitz_save h pdf of
        Inl m \<Rightarrow> (Inl (LibraryError m), w\<lparr>saves := saves w @ [pdf]\<rparr>)
      | Inr buffer \<Rightarrow> (Inr buffer, w\<lparr>saves := saves w @ [pdf]\<rparr>))"

definition upload_bytes :: "host \<Rightarrow> byte list \<Rightarrow> string \<Rightarrow> (string \<rightharpoonup> string) io" where
  "upload_bytes h content public_id w =
     (case uploader_upload h content public_id of
        Inl m \<Rightarrow> (Inl (LibraryError m), w)
      | Inr res \<Rightarrow> (Inr res, w\<lparr>uploads := uploads w @ [FromBytes content public_id]\<rparr>))"

text \<open>The \<open>try\<close> block of \<open>extract_pdf_task\<close>.\<close>

definition extract_try :: "host \<Rightarrow> string \<Rightarrow> string \<Rightarrow> int \<Rightarrow> int \<Rightarrow> string io" where
  "extract_try h task_id file_url start_page end_page =
     bind_io (update task_id [(''status'', PStr ''processing''), (''progress'', PInt 5)]) (\<lambda>_.
     bind_io (download h file_url) (\<lambda>content.
     bind_io (update task_id [(''progress'', PInt 15)]) (\<lambda>_.
     bind_io (open_stream h content) (\<lambda>original_pdf.
     (let total_pages = int (length original_pdf) in
     bind_io (if start_page < 1 \<or> end_page > total_pages \<or> start_page > end_page
              then raise_io (ValueError ''Invalid page range'') else return_io ()) (\<lambda>_.
     bind_io (update task_id [(''progress'', PInt 30)]) (\<lambda>_.
     (let extracted_pdf = insert_pdf [] original_pdf (start_page - 1) (end_page - 1) in
     bind_io (update task_id [(''progress'', PInt 60)]) (\<lambda>_.
     bind_io (save_buffer h extracted_pdf) (\<lambda>extracted_buffer.
     (let extracted_size = length extracted_buffer in
     bind_io (if extracted_size = 0 then raise_io (RuntimeError ''Extracted PDF is empty'')
              else return_io ()) (\<lambda>_.
     bind_io (update task_id [(''progress'', PInt 80)]) (\<lambda>_.
     bind_io (upload_bytes h extracted_buffer (task_id @ ''.pdf'')) (\<lambda>extracted_upload.
     bind_io (subscript extracted_upload ''secure_url'') (\<lambda>result_url.
     bind_io (update task_id
                [(''status'', PStr ''completed''),
                 (''progress'', PStr ''100''),
                 (''result_url'', PStr result_url)]) (\<lambda>_.
     subscript extracted_upload ''secure_url''))))))))))))))))"

definition extract_pdf_task :: "host \<Rightarrow> string \<Rightarrow> string \<Rightarrow> int \<Rightarrow> int \<Rightarrow> string io" where
  "extract_pdf_task h task_id file_url start_page end_page w =
     (case extract_try h task_id file_url start_page end_page w of
        (Inr url, w') \<Rightarrow> (Inr url, w')
      | (Inl e, w') \<Rightarrow>
          (Inl e,
           snd (update task_id
                  [(''status'', PStr ''failed''), (''error'', PStr (str_error h e))] w')))"

section \<open>Reading the published messages\<close>

text \<open>The \<open>progress\<close> fields of a run of messages, in order, and the keys of a message.\<close>

definition progress_fields :: "(string \<times> json) list \<Rightarrow> json list" where
  "progress_fields msgs =
     List.map_filter
       (\<lambda>(channel, m). case m of JObject kvs \<Rightarrow> map_of kvs ''progress'' | _ \<Rightarrow> None) msgs"

definition message_keys :: "json \<Rightarrow> string list" where
  "message_keys m = (case m of JObject kvs \<Rightarrow> map fst kvs | _ \<Rightarrow> [])"

definition string_valued :: "json \<Rightarrow> bool" where
  "string_valued m =
     (case m of
        JObject kvs \<Rightarrow> list_all (\<lambda>(k, v). case v of JString s \<Rightarrow> True | _ \<Rightarrow> False) kvs
      | _ \<Rightarrow> False)"

section \<open>A state store that can fail\<close>

text \<open>
  \<open>REDIS.hset\<close> and \<open>REDIS.publish\<close> are calls to a server and can raise. A client says,
  for each call and the store as it then is, whether the call raises and with what text.
  \<open>_update\<close> calls \<open>hset\<close> first: when \<open>publish\<close> raises, the hash has already been
  written. The pipeline below is the one above with this \<open>_update\<close>; in the handlers an
  \<open>_update\<close> that raises replaces the exception being handled.
\<close>

record redis_client =
  hset_raises :: "string \<Rightarrow> (string \<times> pyval) list \<Rightarrow> store \<Rightarrow> string option"
  publish_raises :: "string \<Rightarrow> json \<Rightarrow> store \<Rightarrow> string option"

definition update_on :: "redis_client \<Rightarrow> string \<Rightarrow> (string \<times> pyval) list \<Rightarrow> unit io" where
  "update_on r task_id flds w =
     (let mapping = map (\<lambda>(k, v). (k, PStr (py_str v))) flds
      in case hset_raises r task_id mapping (redis w) of
           Some m \<Rightarrow> (Inl (LibraryError m), w)
         | None \<Rightarrow>
             (let s = hset task_id mapping (redis w)
              in case publish_raises r (''progress:'' @ task_id) (json_dumps flds) s of
                   Some m \<Rightarrow> (Inl (LibraryError m), w\<lparr>redis := s\<rparr>)
                 | None \<Rightarrow>
                     (Inr (), w\<lparr>redis := publish (''progress:'' @ task_id) (json_dumps flds) s\<rparr>)))"

definition ocr_stage_on ::
  "redis_client \<Rightarrow> host \<Rightarrow> string \<Rightarrow> cfg \<Rightarrow> bool \<Rightarrow> string \<Rightarrow> string \<Rightarrow> string io" where
  "ocr_stage_on r h task_id c scanned p1 p2 =
     (if scanned \<and> truthy (OCR_EXEC h) then
        bind_io (update_on r task_id [(''progress'', PInt 45)]) (\<lambda>_.
        bind_io (run_checked h (ocr_cmd h c p1 p2) p2) (\<lambda>_.
        bind_io (validate p2 ''OCR'') (\<lambda>_.
        return_io p2)))
      else return_io p1)"

definition staged_on ::
  "redis_client \<Rightarrow> host \<Rightarrow> string \<Rightarrow> cfg \<Rightarrow> byte list \<Rightarrow> string \<Rightarrow> (string \<times> nat) io" where
  "staged_on r h task_id c pdf_bytes tmp =
     (let src = path_join (windows h) tmp ''src.pdf'';
          p1 = path_join (windows h) tmp ''p1.pdf'';
          p2 = path_join (windows h) tmp ''p2.pdf'';
          out = path_join (windows h) tmp ''out.pdf''
      in
        bind_io (write_source h src pdf_bytes) (\<lambda>_.
        bind_io (validate src ''Download'') (\<lambda>_.
        bind_io (update_on r task_id [(''progress'', PInt 30)]) (\<lambda>_.
        bind_io (preprocess h src p1) (\<lambda>scanned.
        bind_io (validate p1 ''Pikepdf'') (\<lambda>_.
        bind_io (ocr_stage_on r h task_id c scanned p1 p2) (\<lambda>p2_in.
        bind_io (update_on r task_id [(''progress'', PInt 70)]) (\<lambda>_.
        bind_io (run_checked h (gs_cmd h c (safe_path h p2_in) (safe_path h out)) out) (\<lambda>_.
        bind_io (validate out ''Ghostscript'') (\<lambda>final_size.
        bind_io (update_on r task_id [(''progress'', PInt 85)]) (\<lambda>_.
        bind_io (upload h out) (\<lambda>upload_res.
        bind_io (subscript upload_res ''secure_url'') (\<lambda>cloud_url.
        return_io (cloud_url, final_size))))))))))))))"

definition compress_try_on ::
  "redis_client \<Rightarrow> host \<Rightarrow> string \<Rightarrow> string \<Rightarrow> string \<Rightarrow> string io" where
  "compress_try_on r h task_id file_url compression_level =
     bind_io (\<lambda>w. (select_cfg compression_level, w)) (\<lambda>c.
     bind_io (update_on r task_id
                [(''status'', PStr ''processing''), (''progress'', PInt 5)]) (\<lambda>_.
     bind_io (download h file_url) (\<lambda>pdf_bytes.
     (let orig_size = length pdf_bytes in
     bind_io (if orig_size = 0 then raise_io (ValueError ''Source file download is 0 bytes.'')
              else return_io ()) (\<lambda>_.
     bind_io (update_on r task_id [(''progress'', PInt 20)]) (\<lambda>_.
     bind_io (temporary_directory h (staged_on r h task_id c pdf_bytes))
       (\<lambda>(cloud_url, final_size).
     bind_io (update_on r task_id
                [(''status'', PStr ''completed''),
                 (''progress'', PInt 100),
                 (''result_url'', PStr cloud_url),
                 (''original_kb'', PStr (fmt_kb h orig_size)),
                 (''compressed_kb'', PStr (fmt_kb h final_size)),
                 (''saving'', PStr (fmt_saving h final_size orig_size))]) (\<lambda>_.
     return_io cloud_url))))))))"

definition compress_pdf_task_on ::
  "redis_client \<Rightarrow> host \<Rightarrow> string \<Rightarrow> string \<Rightarrow> string \<Rightarrow> string io" where
  "compress_pdf_task_on r h task_id file_url compression_level w =
     (case compress_try_on r h task_id file_url compression_level w of
        (Inr cloud_url, w') \<Rightarrow> (Inr cloud_url, w')
      | (Inl (CalledProcessError cmd rc), w') \<Rightarrow>
          (case update_on r task_id
                  [(''status'', PStr ''failed''),
                   (''error'', PStr (''Process Error: '' @ str_error h (CalledProcessError cmd rc)))]
                  w' of
             (Inl e', w'') \<Rightarrow> (Inl e', w'')
           | (Inr u, w'') \<Rightarrow> (Inl (CalledProcessError cmd rc), w''))
      | (Inl e, w') \<Rightarrow>
          (case update_on r task_id
                  [(''status'', PStr ''failed''),
                   (''error'', PStr (''Worker Error: '' @ str_error h e))]
                  w' of
             (Inl e', w'') \<Rightarrow> (Inl e', w'')
           | (Inr u, w'') \<Rightarrow> (Inl e, w'')))"

section \<open>Relations between the world before and after a step\<close>

text \<open>
  A relation holds of a computation always, or on failure, when it relates the world
  before to the world after in every run, or in every run that raises.
\<close>

definition always :: "(world \<Rightarrow> world \<Rightarrow> bool) \<Rightarrow> 'a io \<Rightarrow> bool" where
  "always G m = (\<forall>w. G w (snd (m w)))"


definition preorder :: "(world \<Rightarrow> world \<Rightarrow> bool) \<Rightarrow> bool" where
  "preorder G = ((\<forall>a. G a a) \<and> (\<forall>a b c. G a b \<longrightarrow> G b c \<longrightarrow> G a c))"



text \<open>Everything created in between lies inside the directory.\<close>

definition grows_inside :: "bool \<Rightarrow> string \<Rightarrow> world \<Rightarrow> world \<Rightarrow> bool" where
  "grows_inside win d w w' =
     (\<exists>new. created w' = created w @ new \<and> list_all (inside win d) new)"

section \<open>Concrete hosts and worlds\<close>

text \<open>
  A host on which every step succeeds: a one-page scanned document, no OCR binary, a
  Ghostscript that writes two bytes.
\<close>

definition scan_page :: page where
  "scan_page = \<lparr>images = [''/Im0''], resources = [''/XObject'']\<rparr>"

definition text_page :: page where
  "text_page = \<lparr>images = [], resources = [''/Font'']\<rparr>"

definition good_host :: host where
  "good_host =
     \<lparr>windows = False, GS_EXEC = ''/usr/bin/gs'', OCR_EXEC = None,
      requests_get = (\<lambda>u. Inr [1, 2, 3, 4]),
      mkdtemp = Inr ''/tmp/tmpab12'',
      write_file = (\<lambda>p c. None),
      pikepdf_open = (\<lambda>f p. Inr [scan_page]),
      pikepdf_save = (\<lambda>pdf. Inr [1, 2, 3]),
      subprocess_run = (\<lambda>cmd f. Inr \<lparr>returncode = 0, written = Some [1, 2]\<rparr>),
      cu_upload = (\<lambda>f p. Inr [''secure_url'' \<mapsto> ''https://cdn/x.pdf'']),
      fitz_open = (\<lambda>c. Inr [scan_page, text_page, scan_page]),
      fitz_save = (\<lambda>pdf. Inr [7, 7]),
      uploader_upload = (\<lambda>c p. Inr [''secure_url'' \<mapsto> ''https://cdn/y.pdf'']),
      cpe_str = (\<lambda>cmd rc. ''Command failed''),
      fmt_kb = (\<lambda>n. ''0.0''),
      fmt_saving = (\<lambda>a b. ''50.0%'')\<rparr>"

text \<open>The same host with a Ghostscript that exits with status 1 and writes nothing.\<close>

definition gs_fails_host :: host where
  "gs_fails_host =
     good_host\<lparr>subprocess_run := (\<lambda>cmd f. Inr \<lparr>returncode = 1, written = None\<rparr>)\<rparr>"

text \<open>The same host with a download of zero bytes.\<close>

definition empty_download_host :: host where
  "empty_download_host = good_host\<lparr>requests_get := (\<lambda>u. Inr [])\<rparr>"

text \<open>
  Three clients: one that answers every call, one that loses the connection when the
  progress value 70 is published, one that loses it when a message with a result URL is
  published.
\<close>

definition reliable :: redis_client where
  "reliable = \<lparr>hset_raises = (\<lambda>key mapping s. None), publish_raises = (\<lambda>channel m s. None)\<rparr>"



definition empty_store :: store where
  "empty_store = \<lparr>hashes = (\<lambda>k. Map.empty), published = []\<rparr>"

definition world0 :: world where
  "world0 =
     \<lparr>redis = empty_store, files = Map.empty, dirs = {}, created = [], procs = [],
      saves = [], uploads = []\<rparr>"

section \<open>Results\<close>

lemma count_scanned_filter:
  "count_scanned ps n = n + length (filter scanned_like ps)"
  by (induction ps arbitrary: n) auto

lemma sampled_pages_take: "sampled_pages pdf = take 3 pdf"
  by (simp add: sampled_pages_def)

text \<open>
  C1. The classifier answers "scanned" exactly when the document has a page and the
  fraction of the sampled pages (the first three, or all of fewer) that have an image and
  no font resource is at least 0.8; in particular a document with no page is
  "not scanned".
\<close>

theorem C1_is_scanned_iff_fraction:
  "is_scanned pdf 3 = (pdf \<noteq> [] \<and> spec_fraction pdf \<ge> 8 / 10)"
proof -
  have eq: "(\<lambda>p. images p \<noteq> [] \<and> ''/Font'' \<notin> set (resources p)) = scanned_like"
    by (rule ext) (simp add: scanned_like_def)
  show ?thesis
    by (cases pdf)
       (simp_all add: is_scanned_def spec_fraction_def sampled_pages_take eq
          count_scanned_filter)
qed

theorem C1_is_scanned_witness:
  "\<not> is_scanned [scan_page, text_page, scan_page, scan_page] 3
   \<and> spec_fraction [scan_page, text_page, scan_page, scan_page] = 2 / 3
   \<and> is_scanned [scan_page, scan_page, scan_page, text_page] 3
   \<and> \<not> is_scanned [] 3"
  using C1_is_scanned_iff_fraction [of "[scan_page, text_page, scan_page, scan_page]"]
    C1_is_scanned_iff_fraction [of "[scan_page, scan_page, scan_page, text_page]"]
    C1_is_scanned_iff_fraction [of "[]"]
  by (simp add: spec_fraction_def sampled_pages_def scan_page_def text_page_def)

text \<open>
  C3. Validation of a path fails with \<open>FileNotFoundError\<close> (the specification's
  MissingArtifact) when the path does not exist, with \<open>RuntimeError\<close> (EmptyArtifact)
  when the file exists and has no bytes, and returns the number of bytes otherwise.
\<close>

theorem C3_validate_file:
  "(f path = None \<longrightarrow>
      validate_file f path step_name =
        Inl (FileNotFoundError (''['' @ step_name @ ''] File not found: '' @ path)))
   \<and> (f path = Some [] \<longrightarrow>
      validate_file f path step_name =
        Inl (RuntimeError (''['' @ step_name @ ''] Generated file is 0 bytes: '' @ path)))
   \<and> (\<forall>content. f path = Some content \<and> content \<noteq> [] \<longrightarrow>
      validate_file f path step_name = Inr (length content))"
  by (simp add: validate_file_def)

theorem C3_validate_file_witness:
  "validate_file Map.empty ''/tmp/t/out.pdf'' ''Ghostscript'' =
      Inl (FileNotFoundError ''[Ghostscript] File not found: /tmp/t/out.pdf'')
   \<and> validate_file [''/tmp/t/out.pdf'' \<mapsto> []] ''/tmp/t/out.pdf'' ''Ghostscript'' =
      Inl (RuntimeError ''[Ghostscript] Generated file is 0 bytes: /tmp/t/out.pdf'')
   \<and> validate_file [''/tmp/t/out.pdf'' \<mapsto> [1, 2, 3]] ''/tmp/t/out.pdf'' ''Ghostscript'' = Inr 3"
  using C3_validate_file [of Map.empty "''/tmp/t/out.pdf''" "''Ghostscript''"]
    C3_validate_file [of "[''/tmp/t/out.pdf'' \<mapsto> []]" "''/tmp/t/out.pdf''" "''Ghostscript''"]
    C3_validate_file [of "[''/tmp/t/out.pdf'' \<mapsto> [1, 2, 3]]" "''/tmp/t/out.pdf''"
      "''Ghostscript''"]
  by simp

text \<open>
  C8. The names \<open>low\<close>, \<open>medium\<close> and \<open>high\<close> select their own parameters; any other
  name, also one that differs only in case, selects the parameters of \<open>medium\<close>, and no
  name is rejected.
\<close>

theorem C8_select_cfg:
  "select_cfg ''low'' =
      Inr \<lparr>dpi = 300, jpeg_q = 85, jbig2 = ''--jbig2-lossless'', gs = ''/printer''\<rparr>
   \<and> select_cfg ''medium'' =
      Inr \<lparr>dpi = 150, jpeg_q = 65, jbig2 = ''--jbig2-lossless'', gs = ''/ebook''\<rparr>
   \<and> select_cfg ''high'' =
      Inr \<lparr>dpi = 96, jpeg_q = 45, jbig2 = ''--jbig2-lossy'', gs = ''/screen''\<rparr>
   \<and> (name \<notin> {''low'', ''medium'', ''high''} \<longrightarrow>
        select_cfg name =
          Inr \<lparr>dpi = 150, jpeg_q = 65, jbig2 = ''--jbig2-lossless'', gs = ''/ebook''\<rparr>)"
  by (simp add: select_cfg_def LEVELS_def)

theorem C8_select_cfg_witness:
  "''ultra'' \<notin> {''low'', ''medium'', ''high''}
   \<and> select_cfg ''ultra'' = select_cfg ''medium''
   \<and> ''LOW'' \<notin> {''low'', ''medium'', ''high''}
   \<and> select_cfg ''LOW'' = select_cfg ''medium''
   \<and> select_cfg ''low'' \<noteq> select_cfg ''medium''"
  using C8_select_cfg [of "''ultra''"] C8_select_cfg [of "''LOW''"]
  by simp

subsection \<open>The steps when they succeed\<close>

lemma bind_io_Inr:
  "bind_io m f w = (Inr y, w') \<longleftrightarrow> (\<exists>x w1. m w = (Inr x, w1) \<and> f x w1 = (Inr y, w'))"
  by (auto simp: bind_io_def split: prod.splits sum.splits)

lemma return_io_eq [simp]: "return_io x w = (r, w') \<longleftrightarrow> r = Inr x \<and> w' = w"
  by (auto simp: return_io_def)

lemma raise_io_eq [simp]: "raise_io e w = (r, w') \<longleftrightarrow> r = Inl e \<and> w' = w"
  by (auto simp: raise_io_def)

lemma update_eq [simp]:
  "update t f w = (r, w') \<longleftrightarrow> r = Inr () \<and> w' = w\<lparr>redis := update_state t f (redis w)\<rparr>"
  by (auto simp: update_def)

lemma validate_Inr:
  "validate p s w = (Inr n, w') \<longleftrightarrow> w' = w \<and> validate_file (files w) p s = Inr n"
  by (auto simp: validate_def)

lemma write_source_Inr:
  "write_source h p c w = (Inr x, w') \<longleftrightarrow>
     write_file h p c = None
       \<and> w' = w\<lparr>files := (files w)(p \<mapsto> c), created := created w @ [p]\<rparr>"
  by (auto simp: write_source_def split: option.splits)

lemma download_Inr:
  "download h u w = (Inr bs, w') \<longleftrightarrow> requests_get h u = Inr bs \<and> w' = w"
  by (auto simp: download_def split: sum.splits)

lemma preprocess_Inr:
  "preprocess h src p1 w = (Inr sc, w') \<longleftrightarrow>
     (\<exists>pdf saved. pikepdf_open h (files w) src = Inr pdf \<and> sc = is_scanned pdf 3
        \<and> pikepdf_save h pdf = Inr saved
        \<and> w' = w\<lparr>files := (files w)(p1 \<mapsto> saved), created := created w @ [p1]\<rparr>)"
  by (auto simp: preprocess_def Let_def split: sum.splits)

lemma run_checked_Inr:
  "run_checked h cmd target w = (Inr x, w') \<longleftrightarrow>
     (\<exists>r. subprocess_run h cmd (files w) = Inr r \<and> returncode r = 0
        \<and> w' = w\<lparr>files := (case written r of None \<Rightarrow> files w
                                | Some content \<Rightarrow> (files w)(target \<mapsto> content)),
                    created := (case written r of None \<Rightarrow> created w
                                 | Some content \<Rightarrow> created w @ [target]),
                    procs := procs w @ [cmd]\<rparr>)"
  by (auto simp: run_checked_def Let_def split: sum.splits)

lemma upload_Inr:
  "upload h p w = (Inr res, w') \<longleftrightarrow>
     cu_upload h (files w) p = Inr res \<and> w' = w\<lparr>uploads := uploads w @ [FromPath p]\<rparr>"
  by (auto simp: upload_def split: sum.splits)

lemma subscript_Inr:
  "subscript d k w = (Inr v, w') \<longleftrightarrow> d k = Some v \<and> w' = w"
  by (auto simp: subscript_def split: option.splits)

lemmas success_simps = bind_io_Inr validate_Inr write_source_Inr download_Inr preprocess_Inr
  run_checked_Inr upload_Inr subscript_Inr

lemma published_update_state [simp]:
  "published (update_state t f s) = published s @ [(''progress:'' @ t, json_dumps f)]"
  by (simp add: update_state_def publish_def hset_def)

lemma ocr_stage_log:
  assumes "ocr_stage h t c sc p1 p2 w = (Inr p, w')"
  shows "published (redis w') = published (redis w) @
           (if sc \<and> truthy (OCR_EXEC h) then [(''progress:'' @ t, json_dumps [(''progress'', PInt 45)])] else [])"
  using assms
  by (auto simp: ocr_stage_def success_simps split: if_splits)

lemma staged_log:
  assumes "staged h t c bs tmp w = (Inr r, w')"
  shows "\<exists>mid. published (redis w') = published (redis w) @
           [(''progress:'' @ t, json_dumps [(''progress'', PInt 30)])] @ mid @ 
           [(''progress:'' @ t, json_dumps [(''progress'', PInt 70)]),
            (''progress:'' @ t, json_dumps [(''progress'', PInt 85)])]
         \<and> (mid = [] \<or> mid = [(''progress:'' @ t, json_dumps [(''progress'', PInt 45)])])"
  using assms
  unfolding staged_def Let_def
  by (clarsimp simp: success_simps dest!: ocr_stage_log)

lemma rmtree_redis [simp]: "redis (rmtree win d w) = redis w"
  by (simp add: rmtree_def)

lemma temporary_directory_Inr:
  "temporary_directory h body w = (Inr x, w') \<longleftrightarrow>
     (\<exists>tmp w1. mkdtemp h = Inr tmp \<and> body tmp (w\<lparr>dirs := insert tmp (dirs w), created := created w @ [tmp]\<rparr>) = (Inr x, w1)
        \<and> w' = rmtree (windows h) tmp w1)"
  by (auto simp: temporary_directory_def split: sum.splits prod.splits)

lemma compress_task_Inr:
  "fst (compress_pdf_task h t u l w) = Inr url \<longleftrightarrow> fst (compress_try h t u l w) = Inr url"
  "fst (compress_try h t u l w) = Inr url \<Longrightarrow> compress_pdf_task h t u l w = compress_try h t u l w"
  by (auto simp: compress_pdf_task_def split: prod.splits sum.splits error.splits)

lemma compress_try_log:
  assumes "compress_try h t u l w = (Inr url, w')"
  shows "\<exists>new. published (redis w') = published (redis w) @ new \<and>
     (progress_fields new = map JNumber [5, 20, 30, 70, 85, 100]
      \<or> progress_fields new = map JNumber [5, 20, 30, 45, 70, 85, 100])"
  using assms
  unfolding compress_try_def Let_def
  apply (clarsimp simp: success_simps temporary_directory_Inr split: if_splits dest!: staged_log)
  apply (auto simp: progress_fields_def json_dumps_def List.map_filter_simps)
  done

lemmas run_defs = compress_pdf_task_def compress_try_def temporary_directory_def staged_def
  ocr_stage_def bind_io_def return_io_def raise_io_def update_def download_def
  write_source_def validate_def validate_file_def preprocess_def run_checked_def upload_def
  subscript_def rmtree_def select_cfg_def LEVELS_def truthy_def path_join_def seps_def
  safe_path_def gs_cmd_def is_scanned_def scanned_like_def

lemma good_run: "fst (compress_pdf_task good_host ''job1'' ''http://files/a.pdf'' ''high'' world0) = Inr ''https://cdn/x.pdf''"
  by (simp add: run_defs good_host_def world0_def scan_page_def Let_def)

text \<open>
  C2. In a run of the compression task that returns a URL, the progress values published
  during the run are all numbers, each larger than the one before, and the last is 100.
\<close>

theorem C2_progress:
  assumes "fst (compress_pdf_task h task_id file_url level w) = Inr url"
  shows "\<exists>new ps. published (redis (snd (compress_pdf_task h task_id file_url level w))) =
            published (redis w) @ new
         \<and> progress_fields new = map JNumber ps \<and> sorted_wrt (<) ps \<and> ps \<noteq> [] \<and> last ps = 100"
proof -
  from assms have t: "fst (compress_try h task_id file_url level w) = Inr url"
    by (simp add: compress_task_Inr(1))
  then have eq: "compress_pdf_task h task_id file_url level w = compress_try h task_id file_url level w"
    by (rule compress_task_Inr(2))
  obtain w' where w': "compress_try h task_id file_url level w = (Inr url, w')"
    using t by (cases "compress_try h task_id file_url level w") auto
  from compress_try_log [OF w'] obtain new where
    new: "published (redis w') = published (redis w) @ new"
      "progress_fields new = map JNumber [5, 20, 30, 70, 85, 100]
        \<or> progress_fields new = map JNumber [5, 20, 30, 45, 70, 85, 100]"
    by blast
  from new(2) show ?thesis
  proof
    assume "progress_fields new = map JNumber [5, 20, 30, 70, 85, 100]"
    with new(1) show ?thesis unfolding eq w'
      by (intro exI [of _ new] exI [of _ "[5, 20, 30, 70, 85, 100]"]) simp
  next
    assume "progress_fields new = map JNumber [5, 20, 30, 45, 70, 85, 100]"
    with new(1) show ?thesis unfolding eq w'
      by (intro exI [of _ new] exI [of _ "[5, 20, 30, 45, 70, 85, 100]"]) simp
  qed
qed

theorem C2_progress_witness:
  "fst (compress_pdf_task good_host ''job1'' ''http://files/a.pdf'' ''high'' world0) =
      Inr ''https://cdn/x.pdf''
   \<and> (\<exists>new ps. published (redis (snd (compress_pdf_task good_host ''job1'' ''http://files/a.pdf'' ''high'' world0))) =
            published (redis world0) @ new
         \<and> progress_fields new = map JNumber ps \<and> sorted_wrt (<) ps \<and> ps \<noteq> [] \<and> last ps = 100)"
  using C2_progress [of good_host "''job1''" "''http://files/a.pdf''" "''high''" world0 "''https://cdn/x.pdf''"] good_run
  by blast

subsection \<open>Relations kept by every step\<close>

lemma alwaysI: "(\<And>w r w'. m w = (r, w') \<Longrightarrow> G w w') \<Longrightarrow> always G m"
  by (simp add: always_def) (metis prod.collapse)

lemma alwaysD: "always G m \<Longrightarrow> m w = (r, w') \<Longrightarrow> G w w'"
  by (auto simp: always_def dest: spec [of _ w])



lemma always_bind:
  assumes "preorder G" "always G m" "\<And>x. always G (f x)"
  shows "always G (bind_io m f)"
proof (rule alwaysI)
  fix w r w'
  assume run: "bind_io m f w = (r, w')"
  obtain r1 w1 where m: "m w = (r1, w1)" by (cases "m w")
  have g1: "G w w1" using assms(2) m by (rule alwaysD)
  show "G w w'"
  proof (cases r1)
    case (Inl e)
    with run m have "w' = w1" by (simp add: bind_io_def)
    with g1 show ?thesis by simp
  next
    case (Inr x)
    with run m have "f x w1 = (r, w')" by (simp add: bind_io_def)
    then have "G w1 w'" using assms(3) alwaysD by blast
    with g1 assms(1) show ?thesis unfolding preorder_def by blast
  qed
qed


lemma always_return: "preorder G \<Longrightarrow> always G (return_io x)"
  by (simp add: always_def return_io_def preorder_def)


lemma always_if: "always G a \<Longrightarrow> always G b \<Longrightarrow> always G (if c then a else b)"
  by simp




lemma hset_other_key:
  "k \<notin> fst ` set kvs \<Longrightarrow> hashes (hset t kvs s) t k = hashes s t k"
proof -
  have "k \<notin> fst ` set kvs \<Longrightarrow> fold (\<lambda>(k, v) h. h(k \<mapsto> v)) kvs m k = m k" for m
    by (induction kvs arbitrary: m) auto
  then show "k \<notin> fst ` set kvs \<Longrightarrow> hashes (hset t kvs s) t k = hashes s t k"
    by (simp add: hset_def)
qed

lemma published_hset [simp]: "published (hset t kvs s) = published s"
  by (simp add: hset_def)

lemma hashes_publish [simp]: "hashes (publish c m s) = hashes s"
  by (simp add: publish_def)

lemma hashes_update_state_other:
  assumes "k \<notin> fst ` set flds"
  shows "hashes (update_state t flds s) t k = hashes s t k"
proof -
  have "fst ` set (map (\<lambda>(k, v). (k, PStr (py_str v))) flds) = fst ` set flds"
    by (force simp: image_iff)
  with assms show ?thesis
    by (simp add: update_state_def hset_other_key)
qed

lemma message_keys_dumps [simp]: "message_keys (json_dumps flds) = map fst flds"
  by (simp add: message_keys_def json_dumps_def case_prod_unfold comp_def)



lemma hashes_update_state_status:
  "hashes (update_state t [(''status'', a), (''error'', b)] s) t ''status'' = Some (PStr (py_str a))"
  "hashes (update_state t [(''status'', a), (''error'', b)] s) t ''error'' = Some (PStr (py_str b))"
  "hashes (update_state t [(''status'', a), (''error'', b)] s) t ''result_url'' = hashes s t ''result_url''"
  by (simp_all add: update_state_def hset_def)

subsection \<open>Failures, with a state store that can fail\<close>

lemma update_on_reliable: "update_on reliable t flds = update t flds"
  by (rule ext) (simp add: update_on_def update_def reliable_def update_state_def)

lemma compress_task_on_reliable:
  "compress_pdf_task_on reliable h t u l w = compress_pdf_task h t u l w"
proof -
  have o: "ocr_stage_on reliable h t c sc p1 p2 = ocr_stage h t c sc p1 p2" for c sc p1 p2
    by (simp add: ocr_stage_on_def ocr_stage_def update_on_reliable)
  have s: "staged_on reliable h t c bs = staged h t c bs" for c bs
    by (rule ext) (simp add: staged_on_def staged_def update_on_reliable o)
  have c: "compress_try_on reliable h t u l = compress_try h t u l"
    by (simp add: compress_try_on_def compress_try_def update_on_reliable s)
  show ?thesis
    by (simp add: compress_pdf_task_on_def compress_pdf_task_def c update_on_reliable
        update_def split: prod.splits sum.splits error.splits)
qed
















subsection \<open>Staging and cleanup\<close>

lemma select_cfg_total: "\<exists>c. select_cfg level = Inr c"
  by (auto simp: select_cfg_def LEVELS_def)

text \<open>
  C5. When the download has zero bytes the task fails with the \<open>ValueError\<close>
  "Source file download is 0 bytes." (the specification's DownloadError) and nothing was
  staged: no directory or file was created, no command run, nothing uploaded.
\<close>

theorem C5_zero_byte_download:
  assumes "requests_get h file_url = Inr []"
  shows "fst (compress_pdf_task h task_id file_url level w) =
           Inl (ValueError ''Source file download is 0 bytes.'')
       \<and> created (snd (compress_pdf_task h task_id file_url level w)) = created w
       \<and> dirs (snd (compress_pdf_task h task_id file_url level w)) = dirs w
       \<and> files (snd (compress_pdf_task h task_id file_url level w)) = files w
       \<and> procs (snd (compress_pdf_task h task_id file_url level w)) = procs w
       \<and> uploads (snd (compress_pdf_task h task_id file_url level w)) = uploads w"
proof -
  obtain c where c: "select_cfg level = Inr c"
    using select_cfg_total by blast
  show ?thesis
    by (simp add: compress_pdf_task_def compress_try_def bind_io_def update_def download_def
        raise_io_def assms c)
qed

theorem C5_zero_byte_download_witness:
  "requests_get empty_download_host ''http://files/a.pdf'' = Inr []
   \<and> fst (compress_pdf_task empty_download_host ''job1'' ''http://files/a.pdf'' ''low'' world0) =
        Inl (ValueError ''Source file download is 0 bytes.'')
   \<and> created (snd (compress_pdf_task empty_download_host ''job1'' ''http://files/a.pdf'' ''low'' world0)) = []
   \<and> dirs (snd (compress_pdf_task empty_download_host ''job1'' ''http://files/a.pdf'' ''low'' world0)) = {}"
  using C5_zero_byte_download [of empty_download_host "''http://files/a.pdf''" "''job1''" "''low''" world0]
  by (simp add: empty_download_host_def world0_def)

lemma path_join_split: "path_join win d b = path_join win d [] @ b"
  by (simp add: path_join_def)

lemma inside_join: "inside win d (path_join win d b)"
  unfolding inside_def by (subst path_join_split) simp

lemma preorder_grows_inside: "preorder (grows_inside win d)"
  unfolding preorder_def grows_inside_def
  by (auto simp: list_all_append)

lemma grows_same: "created w' = created w \<Longrightarrow> grows_inside win d w w'"
  by (simp add: grows_inside_def)

lemma grows_update: "always (grows_inside win d) (update t flds)"
  by (simp add: always_def update_def grows_same)
lemma grows_validate: "always (grows_inside win d) (validate p s)"
  by (simp add: always_def validate_def grows_same)
lemma grows_upload: "always (grows_inside win d) (upload h p)"
  by (simp add: always_def upload_def grows_same split: sum.splits)
lemma grows_subscript: "always (grows_inside win d) (subscript m k)"
  by (simp add: always_def subscript_def grows_same split: option.splits)
lemma grows_write_source: "inside win d p \<Longrightarrow> always (grows_inside win d) (write_source h p c)"
  by (simp add: always_def write_source_def grows_inside_def split: option.splits)
lemma grows_preprocess: "inside win d p1 \<Longrightarrow> always (grows_inside win d) (preprocess h src p1)"
  by (simp add: always_def preprocess_def grows_inside_def Let_def split: sum.splits)
lemma grows_run_checked: "inside win d p \<Longrightarrow> always (grows_inside win d) (run_checked h cmd p)"
  by (simp add: always_def run_checked_def grows_inside_def Let_def split: sum.splits option.splits)

lemma grows_ocr_stage:
  "always (grows_inside win d) (ocr_stage h t c sc p1 (path_join win d b))"
  unfolding ocr_stage_def
  by (intro always_if always_bind preorder_grows_inside always_return grows_update
      grows_run_checked grows_validate inside_join)

lemma grows_staged: "always (grows_inside (windows h) tmp) (staged h t c bs tmp)"
  unfolding staged_def Let_def
  by (intro always_bind preorder_grows_inside always_return grows_update grows_run_checked
      grows_validate grows_write_source grows_preprocess grows_ocr_stage grows_upload
      grows_subscript inside_join)

lemma temporary_directory_clean:
  assumes tmp: "mkdtemp h = Inr tmp"
    and body: "always (grows_inside (windows h) tmp) (body tmp)"
  shows "tmp \<notin> dirs (snd (temporary_directory h body w))
    \<and> (\<forall>p. inside (windows h) tmp p \<longrightarrow>
          files (snd (temporary_directory h body w)) p = None
          \<and> p \<notin> dirs (snd (temporary_directory h body w)))
    \<and> (\<exists>arts. created (snd (temporary_directory h body w)) = created w @ tmp # arts
          \<and> list_all (inside (windows h) tmp) arts)"
proof -
  let ?w0 = "w\<lparr>dirs := insert tmp (dirs w), created := created w @ [tmp]\<rparr>"
  obtain r w1 where b: "body tmp ?w0 = (r, w1)" by (cases "body tmp ?w0")
  from body b have "grows_inside (windows h) tmp ?w0 w1" by (rule alwaysD)
  then obtain arts where "created w1 = created w @ tmp # arts" "list_all (inside (windows h) tmp) arts"
    by (auto simp: grows_inside_def)
  moreover have "temporary_directory h body w = (r, rmtree (windows h) tmp w1)"
    using tmp b by (simp add: temporary_directory_def)
  ultimately show ?thesis
    by (simp add: rmtree_def)
qed

lemma compress_try_staging:
  assumes "requests_get h u = Inr bs" "bs \<noteq> []" "select_cfg l = Inr c"
  shows "compress_try h t u l w =
     bind_io (temporary_directory h (staged h t c bs))
       (\<lambda>(cloud_url, final_size).
          bind_io (update t
                [(''status'', PStr ''completed''),
                 (''progress'', PInt 100),
                 (''result_url'', PStr cloud_url),
                 (''original_kb'', PStr (fmt_kb h (length bs))),
                 (''compressed_kb'', PStr (fmt_kb h final_size)),
                 (''saving'', PStr (fmt_saving h final_size (length bs)))]) (\<lambda>_.
          return_io cloud_url))
       (w\<lparr>redis := update_state t [(''progress'', PInt 20)]
            (update_state t [(''status'', PStr ''processing''), (''progress'', PInt 5)] (redis w))\<rparr>)"
  by (simp add: compress_try_def bind_io_def update_def download_def return_io_def Let_def assms)

lemma disk_after_bind_update:
  "files (snd (bind_io m (\<lambda>(a, b). bind_io (update t (flds a b)) (\<lambda>_. return_io (g a b))) w)) = files (snd (m w))"
  "dirs (snd (bind_io m (\<lambda>(a, b). bind_io (update t (flds a b)) (\<lambda>_. return_io (g a b))) w)) = dirs (snd (m w))"
  "created (snd (bind_io m (\<lambda>(a, b). bind_io (update t (flds a b)) (\<lambda>_. return_io (g a b))) w)) = created (snd (m w))"
  by (auto simp: bind_io_def update_def return_io_def split: prod.splits sum.splits)

lemma disk_after_task:
  "files (snd (compress_pdf_task h t u l w)) = files (snd (compress_try h t u l w))"
  "dirs (snd (compress_pdf_task h t u l w)) = dirs (snd (compress_try h t u l w))"
  "created (snd (compress_pdf_task h t u l w)) = created (snd (compress_try h t u l w))"
  by (auto simp: compress_pdf_task_def update_def split: prod.splits sum.splits error.splits)

lemma good_get: "requests_get good_host ''http://files/a.pdf'' = Inr [1, 2, 3, 4]"
  "mkdtemp good_host = Inr ''/tmp/tmpab12''"
  "requests_get gs_fails_host ''http://files/a.pdf'' = Inr [1, 2, 3, 4]"
  "mkdtemp gs_fails_host = Inr ''/tmp/tmpab12''"
  by (simp_all add: good_host_def gs_fails_host_def)

text \<open>
  C7. When the run reaches staging (the download has bytes and the temporary directory
  is made), then at the end of the task, whether it returned or raised, the directory does
  not exist, no file or directory inside it exists, and everything the run created after
  the directory lay inside it.
\<close>

theorem C7_staging_removed:
  assumes "requests_get h file_url = Inr pdf_bytes" "pdf_bytes \<noteq> []" "mkdtemp h = Inr tmp"
  shows "tmp \<notin> dirs (snd (compress_pdf_task h task_id file_url level w))
    \<and> (\<forall>p. inside (windows h) tmp p \<longrightarrow>
          files (snd (compress_pdf_task h task_id file_url level w)) p = None
          \<and> p \<notin> dirs (snd (compress_pdf_task h task_id file_url level w)))
    \<and> (\<exists>arts. created (snd (compress_pdf_task h task_id file_url level w)) = created w @ tmp # arts
          \<and> (\<forall>p \<in> set arts. inside (windows h) tmp p))"
proof -
  obtain c where c: "select_cfg level = Inr c"
    using select_cfg_total by blast
  let ?w2 = "w\<lparr>redis := update_state task_id [(''progress'', PInt 20)]
            (update_state task_id [(''status'', PStr ''processing''), (''progress'', PInt 5)] (redis w))\<rparr>"
  have "created ?w2 = created w" by simp
  with temporary_directory_clean
    [of h tmp "staged h task_id c pdf_bytes" ?w2, OF assms(3) grows_staged]
  show ?thesis
    unfolding disk_after_task compress_try_staging [OF assms(1,2) c] disk_after_bind_update
    by (simp add: list_all_iff)
qed

theorem C7_staging_removed_witness:
  "requests_get good_host ''http://files/a.pdf'' = Inr [1, 2, 3, 4]
   \<and> mkdtemp good_host = Inr ''/tmp/tmpab12''
   \<and> ''/tmp/tmpab12'' \<notin> dirs (snd (compress_pdf_task good_host ''job1'' ''http://files/a.pdf'' ''high'' world0))
   \<and> files (snd (compress_pdf_task good_host ''job1'' ''http://files/a.pdf'' ''high'' world0))
        ''/tmp/tmpab12/out.pdf'' = None
   \<and> requests_get gs_fails_host ''http://files/a.pdf'' = Inr [1, 2, 3, 4]
   \<and> mkdtemp gs_fails_host = Inr ''/tmp/tmpab12''
   \<and> ''/tmp/tmpab12'' \<notin> dirs (snd (compress_pdf_task gs_fails_host ''job1'' ''http://files/a.pdf'' ''high'' world0))
   \<and> files (snd (compress_pdf_task gs_fails_host ''job1'' ''http://files/a.pdf'' ''high'' world0))
        ''/tmp/tmpab12/p1.pdf'' = None"
proof -
  have i: "inside (windows good_host) ''/tmp/tmpab12'' ''/tmp/tmpab12/out.pdf''"
    "inside (windows gs_fails_host) ''/tmp/tmpab12'' ''/tmp/tmpab12/p1.pdf''"
    by (simp_all add: inside_def path_join_def seps_def good_host_def gs_fails_host_def)
  show ?thesis
    using C7_staging_removed [of good_host "''http://files/a.pdf''" "[1, 2, 3, 4]" "''/tmp/tmpab12''"
        "''job1''" "''high''" world0]
      C7_staging_removed [of gs_fails_host "''http://files/a.pdf''" "[1, 2, 3, 4]" "''/tmp/tmpab12''"
        "''job1''" "''high''" world0]
      i good_get
    by auto
qed

lemma ocr_stage_skipped:
  "\<not> truthy (OCR_EXEC h) \<Longrightarrow> ocr_stage h t c sc p1 p2 w = (Inr p1, w)"
  by (simp add: ocr_stage_def return_io_def)

lemma good_select: "select_cfg ''high'' =
   Inr \<lparr>dpi = 96, jpeg_q = 45, jbig2 = ''--jbig2-lossy'', gs = ''/screen''\<rparr>"
  by (simp add: select_cfg_def LEVELS_def)

text \<open>
  C6. With no OCR binary on the host, a document classified as scanned for which the other
  steps succeed is compressed successfully: the OCR stage returns the pre-OCR path and
  changes nothing, the only command run is Ghostscript with that path as its input, the task
  returns the URL and the job's status is \<open>completed\<close>.
\<close>

theorem C6_no_ocr_binary:
  assumes "OCR_EXEC h = None"
    and "select_cfg level = Inr c"
    and "requests_get h file_url = Inr pdf_bytes" "pdf_bytes \<noteq> []"
    and "mkdtemp h = Inr tmp"
    and "write_file h (path_join (windows h) tmp ''src.pdf'') pdf_bytes = None"
    and "pikepdf_open h ((files w)(path_join (windows h) tmp ''src.pdf'' \<mapsto> pdf_bytes))
           (path_join (windows h) tmp ''src.pdf'') = Inr pdf"
    and "is_scanned pdf 3"
    and "pikepdf_save h pdf = Inr saved" "saved \<noteq> []"
    and "subprocess_run h
           (gs_cmd h c (safe_path h (path_join (windows h) tmp ''p1.pdf''))
                       (safe_path h (path_join (windows h) tmp ''out.pdf'')))
           ((files w)(path_join (windows h) tmp ''src.pdf'' \<mapsto> pdf_bytes,
                      path_join (windows h) tmp ''p1.pdf'' \<mapsto> saved)) = Inr r"
    and "returncode r = 0" "written r = Some compressed" "compressed \<noteq> []"
    and "cu_upload h
           ((files w)(path_join (windows h) tmp ''src.pdf'' \<mapsto> pdf_bytes,
                      path_join (windows h) tmp ''p1.pdf'' \<mapsto> saved,
                      path_join (windows h) tmp ''out.pdf'' \<mapsto> compressed))
           (path_join (windows h) tmp ''out.pdf'') = Inr upload_res"
    and "upload_res ''secure_url'' = Some cloud_url"
  shows "fst (compress_pdf_task h task_id file_url level w) = Inr cloud_url
    \<and> procs (snd (compress_pdf_task h task_id file_url level w)) =
        procs w @ [gs_cmd h c (safe_path h (path_join (windows h) tmp ''p1.pdf''))
                              (safe_path h (path_join (windows h) tmp ''out.pdf''))]
    \<and> last (gs_cmd h c (safe_path h (path_join (windows h) tmp ''p1.pdf''))
                       (safe_path h (path_join (windows h) tmp ''out.pdf''))) =
        safe_path h (path_join (windows h) tmp ''p1.pdf'')
    \<and> hashes (redis (snd (compress_pdf_task h task_id file_url level w))) task_id ''status'' =
        Some (PStr ''completed'')
    \<and> (\<forall>w0 p2. ocr_stage h task_id c True (path_join (windows h) tmp ''p1.pdf'') p2 w0 =
          (Inr (path_join (windows h) tmp ''p1.pdf''), w0))"
proof -
  have nt: "\<not> truthy (OCR_EXEC h)" using assms(1) by (simp add: truthy_def)
  let ?src = "path_join (windows h) tmp ''src.pdf''"
  let ?p1 = "path_join (windows h) tmp ''p1.pdf''"
  let ?out = "path_join (windows h) tmp ''out.pdf''"
  let ?cmd = "gs_cmd h c (safe_path h ?p1) (safe_path h ?out)"
  let ?w2 = "w\<lparr>redis := update_state task_id [(''progress'', PInt 20)]
            (update_state task_id [(''status'', PStr ''processing''), (''progress'', PInt 5)] (redis w))\<rparr>"
  let ?w3 = "?w2\<lparr>dirs := insert tmp (dirs ?w2), created := created ?w2 @ [tmp]\<rparr>"
  obtain w4 where st: "staged h task_id c pdf_bytes tmp ?w3 = (Inr (cloud_url, length compressed), w4)"
    and procs4: "procs w4 = procs w @ [?cmd]"
    by (simp add: staged_def Let_def bind_io_def write_source_def validate_def validate_file_def
        update_def preprocess_def assms ocr_stage_skipped [OF nt] run_checked_def upload_def
        subscript_def return_io_def)
  have td: "temporary_directory h (staged h task_id c pdf_bytes) ?w2 =
      (Inr (cloud_url, length compressed), rmtree (windows h) tmp w4)"
    using st by (simp add: temporary_directory_def assms(5))
  obtain w5 where tr: "compress_try h task_id file_url level w = (Inr cloud_url, w5)"
    and w5: "procs w5 = procs w4"
      "redis w5 = update_state task_id
          [(''status'', PStr ''completed''), (''progress'', PInt 100),
           (''result_url'', PStr cloud_url),
           (''original_kb'', PStr (fmt_kb h (length pdf_bytes))),
           (''compressed_kb'', PStr (fmt_kb h (length compressed))),
           (''saving'', PStr (fmt_saving h (length compressed) (length pdf_bytes)))]
          (redis w4)"
    unfolding compress_try_staging [OF assms(3,4,2)]
    by (simp add: bind_io_def td update_def return_io_def rmtree_def)
  from w5(2) have fin: "hashes (redis w5) task_id ''status'' = Some (PStr ''completed'')"
    by (simp add: update_state_def hset_def publish_def)
  have task: "compress_pdf_task h task_id file_url level w = (Inr cloud_url, w5)"
    by (simp add: compress_pdf_task_def tr)
  show ?thesis
    by (simp add: task w5(1) fin procs4 ocr_stage_skipped [OF nt] gs_cmd_def)
qed

theorem C6_no_ocr_binary_witness:
  "OCR_EXEC good_host = None
   \<and> is_scanned [scan_page] 3
   \<and> fst (compress_pdf_task good_host ''job1'' ''http://files/a.pdf'' ''high'' world0) =
        Inr ''https://cdn/x.pdf''
   \<and> procs (snd (compress_pdf_task good_host ''job1'' ''http://files/a.pdf'' ''high'' world0)) =
        [[''/usr/bin/gs'', ''-sDEVICE=pdfwrite'', ''-dCompatibilityLevel=1.4'',
          ''-dPDFSETTINGS=/screen'', ''-dNOPAUSE'', ''-dQUIET'', ''-dBATCH'', ''-dSAFER'',
          ''-sOutputFile=/tmp/tmpab12/out.pdf'', ''/tmp/tmpab12/p1.pdf'']]"
proof -
  have sc: "is_scanned [scan_page] 3"
    by (simp add: is_scanned_def scanned_like_def scan_page_def)
  show ?thesis
    using C6_no_ocr_binary [of good_host "''high''"
        "\<lparr>dpi = 96, jpeg_q = 45, jbig2 = ''--jbig2-lossy'', gs = ''/screen''\<rparr>"
        "''http://files/a.pdf''" "[1, 2, 3, 4]" "''/tmp/tmpab12''" world0 "[scan_page]"
        "[1, 2, 3]" "\<lparr>returncode = 0, written = Some [1, 2]\<rparr>" "[1, 2]"
        "[''secure_url'' \<mapsto> ''https://cdn/x.pdf'']" "''https://cdn/x.pdf''" "''job1''"]
      good_select sc
    by (simp add: good_host_def world0_def gs_cmd_def safe_path_def path_join_def seps_def)
qed

subsection \<open>Page extraction and the state reporter\<close>

lemma insert_pdf_slice:
  assumes "1 \<le> s" "s \<le> e" "e \<le> int (length pdf)"
  shows "insert_pdf [] pdf (s - 1) (e - 1) = map (\<lambda>i. pdf ! nat (i - 1)) [s..e]"
proof (rule nth_equalityI)
  show "length (insert_pdf [] pdf (s - 1) (e - 1)) = length (map (\<lambda>i. pdf ! nat (i - 1)) [s..e])"
    using assms by (simp add: insert_pdf_def)
  fix k assume "k < length (insert_pdf [] pdf (s - 1) (e - 1))"
  then have k: "k < nat (e - s + 1)" using assms by (simp add: insert_pdf_def)
  then have "[s..e] ! k = s + int k" using assms by (simp add: nth_upto)
  moreover have "nat (s + int k - 1) = nat (s - 1) + k" using assms by simp
  ultimately show "insert_pdf [] pdf (s - 1) (e - 1) ! k = map (\<lambda>i. pdf ! nat (i - 1)) [s..e] ! k"
    using k assms by (simp add: insert_pdf_def)
qed

lemma extract_invalid:
  assumes "requests_get h file_url = Inr content" "fitz_open h content = Inr pdf"
    and "start_page < 1 \<or> end_page > int (length pdf) \<or> start_page > end_page"
  shows "extract_pdf_task h task_id file_url start_page end_page w =
     (Inl (ValueError ''Invalid page range''),
      w\<lparr>redis := update_state task_id
           [(''status'', PStr ''failed''), (''error'', PStr ''Invalid page range'')]
           (update_state task_id [(''progress'', PInt 15)]
             (update_state task_id [(''status'', PStr ''processing''), (''progress'', PInt 5)]
               (redis w)))\<rparr>)"
  using assms(3)
  by (simp add: extract_pdf_task_def extract_try_def bind_io_def update_def download_def
      open_stream_def raise_io_def assms(1,2) Let_def)

lemma extract_valid:
  assumes "requests_get h file_url = Inr content" "fitz_open h content = Inr pdf"
    and "\<not> (start_page < 1 \<or> end_page > int (length pdf) \<or> start_page > end_page)"
  shows "fst (extract_pdf_task h task_id file_url start_page end_page w) \<noteq>
           Inl (ValueError ''Invalid page range'')
       \<and> saves (snd (extract_pdf_task h task_id file_url start_page end_page w)) =
           saves w @ [insert_pdf [] pdf (start_page - 1) (end_page - 1)]"
  using assms(3)
  by (simp add: extract_pdf_task_def extract_try_def bind_io_def update_def download_def
      open_stream_def raise_io_def return_io_def save_buffer_def upload_bytes_def subscript_def
      assms(1,2) Let_def
      split: sum.splits option.splits)

lemma good_fitz: "requests_get good_host ''http://files/a.pdf'' = Inr [1, 2, 3, 4]"
  "fitz_open good_host [1, 2, 3, 4] = Inr [scan_page, text_page, scan_page]"
  by (simp_all add: good_host_def)

lemma upto_2_3: "[2..3] = [2, 3::int]"
  by (simp add: upto.simps)

text \<open>
  C10. For a downloaded PDF that opens with \<open>total_pages\<close> pages: when
  \<open>start_page < 1\<close> or \<open>end_page > total_pages\<close> or \<open>start_page > end_page\<close> the
  extraction task raises \<open>ValueError "Invalid page range"\<close>, records \<open>status=failed\<close>
  with that message, and saves and uploads nothing; otherwise it does not raise that
  error, and the document it hands to be saved consists of the pages \<open>start_page\<close> to
  \<open>end_page\<close> (counted from 1, both included) of the original, in order.
\<close>

theorem C10_page_range:
  assumes "requests_get h file_url = Inr content" "fitz_open h content = Inr pdf"
  shows "(start_page < 1 \<or> end_page > int (length pdf) \<or> start_page > end_page \<longrightarrow>
            fst (extract_pdf_task h task_id file_url start_page end_page w) =
              Inl (ValueError ''Invalid page range'')
          \<and> hashes (redis (snd (extract_pdf_task h task_id file_url start_page end_page w)))
              task_id ''status'' = Some (PStr ''failed'')
          \<and> hashes (redis (snd (extract_pdf_task h task_id file_url start_page end_page w)))
              task_id ''error'' = Some (PStr ''Invalid page range'')
          \<and> uploads (snd (extract_pdf_task h task_id file_url start_page end_page w)) = uploads w
          \<and> saves (snd (extract_pdf_task h task_id file_url start_page end_page w)) = saves w)
       \<and> (\<not> (start_page < 1 \<or> end_page > int (length pdf) \<or> start_page > end_page) \<longrightarrow>
            fst (extract_pdf_task h task_id file_url start_page end_page w) \<noteq>
              Inl (ValueError ''Invalid page range'')
          \<and> saves (snd (extract_pdf_task h task_id file_url start_page end_page w)) =
              saves w @ [map (\<lambda>i. pdf ! nat (i - 1)) [start_page..end_page]])"
proof (intro conjI impI)
  assume inv: "start_page < 1 \<or> end_page > int (length pdf) \<or> start_page > end_page"
  note eq = extract_invalid [OF assms inv]
  show "fst (extract_pdf_task h task_id file_url start_page end_page w) =
          Inl (ValueError ''Invalid page range'')"
    by (simp add: eq)
  show "hashes (redis (snd (extract_pdf_task h task_id file_url start_page end_page w)))
          task_id ''status'' = Some (PStr ''failed'')"
    by (simp add: eq hashes_update_state_status)
  show "hashes (redis (snd (extract_pdf_task h task_id file_url start_page end_page w)))
          task_id ''error'' = Some (PStr ''Invalid page range'')"
    by (simp add: eq hashes_update_state_status)
  show "uploads (snd (extract_pdf_task h task_id file_url start_page end_page w)) = uploads w"
    by (simp add: eq)
  show "saves (snd (extract_pdf_task h task_id file_url start_page end_page w)) = saves w"
    by (simp add: eq)
next
  assume ok: "\<not> (start_page < 1 \<or> end_page > int (length pdf) \<or> start_page > end_page)"
  from extract_valid [OF assms ok]
  show "fst (extract_pdf_task h task_id file_url start_page end_page w) \<noteq>
          Inl (ValueError ''Invalid page range'')"
    by simp
  from ok have "insert_pdf [] pdf (start_page - 1) (end_page - 1) =
      map (\<lambda>i. pdf ! nat (i - 1)) [start_page..end_page]"
    by (intro insert_pdf_slice) simp_all
  with extract_valid [OF assms ok]
  show "saves (snd (extract_pdf_task h task_id file_url start_page end_page w)) =
          saves w @ [map (\<lambda>i. pdf ! nat (i - 1)) [start_page..end_page]]"
    by simp
qed

theorem C10_page_range_witness:
  "requests_get good_host ''http://files/a.pdf'' = Inr [1, 2, 3, 4]
   \<and> fitz_open good_host [1, 2, 3, 4] = Inr [scan_page, text_page, scan_page]
   \<and> fst (extract_pdf_task good_host ''job2'' ''http://files/a.pdf'' 2 4 world0) =
        Inl (ValueError ''Invalid page range'')
   \<and> uploads (snd (extract_pdf_task good_host ''job2'' ''http://files/a.pdf'' 2 4 world0)) = []
   \<and> fst (extract_pdf_task good_host ''job2'' ''http://files/a.pdf'' 0 2 world0) =
        Inl (ValueError ''Invalid page range'')
   \<and> fst (extract_pdf_task good_host ''job2'' ''http://files/a.pdf'' 3 2 world0) =
        Inl (ValueError ''Invalid page range'')
   \<and> saves (snd (extract_pdf_task good_host ''job2'' ''http://files/a.pdf'' 2 3 world0)) =
        [[text_page, scan_page]]"
  using C10_page_range [OF good_fitz, of 2 4 "''job2''" world0]
    C10_page_range [OF good_fitz, of 0 2 "''job2''" world0]
    C10_page_range [OF good_fitz, of 3 2 "''job2''" world0]
    C10_page_range [OF good_fitz, of 2 3 "''job2''" world0]
    good_fitz
  by (simp add: world0_def upto_2_3)

lemma fold_upd_in:
  "k \<in> fst ` set kvs \<Longrightarrow> \<exists>v. (k, v) \<in> set kvs \<and> fold (\<lambda>(k, v) h. h(k \<mapsto> v)) kvs m k = Some v"
proof (induction kvs arbitrary: m rule: rev_induct)
  case Nil
  then show ?case by simp
next
  case (snoc x xs)
  then show ?case by (cases x) (auto split: if_splits)
qed

text \<open>
  C9 (amended). A call of the state reporter writes \<open>str(v)\<close>, a string, into the job's
  hash for every field it is given and leaves the other fields of the hash alone; the
  message it publishes is the JSON object of the fields as they were passed, in which a
  string value is a JSON string and an integer value is a JSON number.
\<close>

theorem C9_update_state_values:
  "(\<forall>k \<in> fst ` set flds. \<exists>v. (k, v) \<in> set flds
        \<and> hashes (update_state task_id flds s) task_id k = Some (PStr (py_str v)))
   \<and> (\<forall>k. k \<notin> fst ` set flds \<longrightarrow>
        hashes (update_state task_id flds s) task_id k = hashes s task_id k)
   \<and> published (update_state task_id flds s) =
        published s @ [(''progress:'' @ task_id, JObject (map (\<lambda>(k, v). (k, json_of v)) flds))]
   \<and> json_of (PStr x) = JString x \<and> json_of (PInt i) = JNumber i"
proof (intro conjI ballI allI impI)
  fix k assume k: "k \<in> fst ` set flds"
  let ?kvs = "map (\<lambda>(k, v). (k, PStr (py_str v))) flds"
  have "fst ` set ?kvs = fst ` set flds" by (force simp: image_iff)
  with k have "k \<in> fst ` set ?kvs" by simp
  from fold_upd_in [OF this] obtain v' where
    v': "(k, v') \<in> set ?kvs" "fold (\<lambda>(k, v) h. h(k \<mapsto> v)) ?kvs (hashes s task_id) k = Some v'"
    by blast
  from v'(1) obtain v where "(k, v) \<in> set flds" "v' = PStr (py_str v)" by auto
  with v'(2) show "\<exists>v. (k, v) \<in> set flds
        \<and> hashes (update_state task_id flds s) task_id k = Some (PStr (py_str v))"
    by (auto simp: update_state_def hset_def)
next
  fix k assume "k \<notin> fst ` set flds"
  then show "hashes (update_state task_id flds s) task_id k = hashes s task_id k"
    by (rule hashes_update_state_other)
qed (simp_all add: json_dumps_def)

theorem C9_update_state_values_witness:
  "hashes (update_state ''job1'' [(''status'', PStr ''processing''), (''progress'', PInt 5)] empty_store)
      ''job1'' ''progress'' = Some (PStr ''5'')
   \<and> hashes (update_state ''job1'' [(''status'', PStr ''processing''), (''progress'', PInt 5)] empty_store)
      ''job1'' ''result_url'' = None
   \<and> published (update_state ''job1'' [(''status'', PStr ''processing''), (''progress'', PInt 5)] empty_store) =
       [(''progress:job1'', JObject [(''status'', JString ''processing''), (''progress'', JNumber 5)])]"
  using C9_update_state_values [of "[(''status'', PStr ''processing''), (''progress'', PInt 5)]" "''job1''" empty_store]
  by (auto simp: empty_store_def str_int_def str_nat.simps)

text \<open>
  C9 as stated fails: the message published for \<open>status="processing", progress=5\<close> has
  a value that is not a string.
\<close>

theorem C9_published_number_counterexample:
  "\<not> string_valued (snd (last (published
        (update_state ''job1'' [(''status'', PStr ''processing''), (''progress'', PInt 5)] empty_store))))"
  by (simp add: update_state_def publish_def hset_def json_dumps_def string_valued_def empty_store_def)

end
